theory Spec2Isabelle
  imports Main "HOL-Library.Word" "HOL-Library.Multiset"
begin

section \<open>Primitive identifiers and input references\<close>

type_synonym primitive_id = string

type_synonym primitive_id_arr = "primitive_id list"

text \<open>\<^verbatim>\<open>cldnn::input_info\<close>: the id of the producing primitive and the index of the
  output it is read from. Its declaration is not among the sources; only these two
  components are used.\<close>

record input_info =
  pid :: primitive_id
  idx :: nat

section \<open>The deconvolution primitive\<close>

text \<open>\<^verbatim>\<open>ov::Strides\<close> is a vector of \<^verbatim>\<open>size_t\<close>, \<^verbatim>\<open>ov::CoordinateDiff\<close> a vector of
  \<^verbatim>\<open>ptrdiff_t\<close> (64-bit words, read as signed by \<open>sint\<close>). The types \<^verbatim>\<open>padding\<close>,
  \<^verbatim>\<open>tensor\<close> and \<^verbatim>\<open>ov::PartialShape\<close> are not among the sources: \<^verbatim>\<open>padding\<close> and \<^verbatim>\<open>tensor\<close> are type parameters of the
  record, a default-constructed \<^verbatim>\<open>tensor\<close> is \<open>None\<close>, and a partial shape is a list of
  optional dimensions (\<^verbatim>\<open>{}\<close> is the empty list).\<close>

type_synonym Strides = "64 word list"

type_synonym CoordinateDiff = "64 word list"

type_synonym PartialShape = "nat option list"

text \<open>The fields of \<^verbatim>\<open>primitive_base\<close> that every constructor sets (\<open>id\<close>, written \<open>id'\<close>, \<open>input\<close>,
  \<open>output_paddings\<close>), then the fields of \<^verbatim>\<open>struct deconvolution\<close> in declaration
  order.\<close>

record ('tensor, 'padding) deconvolution =
  id' :: primitive_id
  input :: "input_info list"
  output_paddings :: "'padding list"
  pad :: CoordinateDiff
  stride :: Strides
  dilations :: Strides
  with_output_size :: bool
  output_size :: "'tensor option"
  groups :: "32 word"
  pads_begin :: CoordinateDiff
  pads_end :: CoordinateDiff
  out_padding :: CoordinateDiff
  grouped_weights_shape :: bool
  output_partial_shape :: PartialShape
  output_shape_id :: primitive_id
  weights :: primitive_id_arr
  bias :: primitive_id_arr

text \<open>The eight constructors and the two static factories, in source order. Default
  arguments are a matter of the call site, so every parameter is explicit here.\<close>

definition deconvolution_1 ::
  "primitive_id \<Rightarrow> input_info \<Rightarrow> primitive_id list \<Rightarrow> primitive_id list \<Rightarrow> Strides \<Rightarrow>
   CoordinateDiff \<Rightarrow> Strides \<Rightarrow> 'padding \<Rightarrow> ('tensor, 'padding) deconvolution" where
  "deconvolution_1 i inp w b strd pd dil output_padding =
     \<lparr>id' = i, input = [inp], output_paddings = [output_padding],
      pad = pd, stride = strd, dilations = dil,
      with_output_size = False, output_size = None, groups = 1,
      pads_begin = replicate (length pd) 0, pads_end = replicate (length pd) 0,
      out_padding = replicate (length pd) 0,
      grouped_weights_shape = False, output_partial_shape = [], output_shape_id = [],
      weights = w, bias = b\<rparr>"

definition deconvolution_2 ::
  "primitive_id \<Rightarrow> input_info \<Rightarrow> primitive_id list \<Rightarrow> primitive_id list \<Rightarrow> 32 word \<Rightarrow>
   Strides \<Rightarrow> CoordinateDiff \<Rightarrow> Strides \<Rightarrow> 'padding \<Rightarrow> ('tensor, 'padding) deconvolution" where
  "deconvolution_2 i inp w b grps strd pd dil output_padding =
     \<lparr>id' = i, input = [inp], output_paddings = [output_padding],
      pad = pd, stride = strd, dilations = dil,
      with_output_size = False, output_size = None, groups = grps,
      pads_begin = replicate (length pd) 0, pads_end = replicate (length pd) 0,
      out_padding = replicate (length pd) 0,
      grouped_weights_shape = False, output_partial_shape = [], output_shape_id = [],
      weights = w, bias = b\<rparr>"

definition deconvolution_3 ::
  "primitive_id \<Rightarrow> input_info \<Rightarrow> primitive_id list \<Rightarrow> Strides \<Rightarrow>
   CoordinateDiff \<Rightarrow> Strides \<Rightarrow> 'padding \<Rightarrow> ('tensor, 'padding) deconvolution" where
  "deconvolution_3 i inp w strd pd dil output_padding =
     \<lparr>id' = i, input = [inp], output_paddings = [output_padding],
      pad = pd, stride = strd, dilations = dil,
      with_output_size = False, output_size = None, groups = 1,
      pads_begin = replicate (length pd) 0, pads_end = replicate (length pd) 0,
      out_padding = replicate (length pd) 0,
      grouped_weights_shape = False, output_partial_shape = [], output_shape_id = [],
      weights = w, bias = []\<rparr>"

definition deconvolution_4 ::
  "primitive_id \<Rightarrow> input_info \<Rightarrow> primitive_id list \<Rightarrow> 32 word \<Rightarrow> Strides \<Rightarrow>
   CoordinateDiff \<Rightarrow> Strides \<Rightarrow> 'padding \<Rightarrow> ('tensor, 'padding) deconvolution" where
  "deconvolution_4 i inp w grps strd pd dil output_padding =
     \<lparr>id' = i, input = [inp], output_paddings = [output_padding],
      pad = pd, stride = strd, dilations = dil,
      with_output_size = False, output_size = None, groups = grps,
      pads_begin = replicate (length pd) 0, pads_end = replicate (length pd) 0,
      out_padding = replicate (length pd) 0,
      grouped_weights_shape = False, output_partial_shape = [], output_shape_id = [],
      weights = w, bias = []\<rparr>"

definition deconvolution_5 ::
  "primitive_id \<Rightarrow> input_info \<Rightarrow> primitive_id list \<Rightarrow> primitive_id list \<Rightarrow> Strides \<Rightarrow>
   CoordinateDiff \<Rightarrow> Strides \<Rightarrow> 'tensor \<Rightarrow> 'padding \<Rightarrow> ('tensor, 'padding) deconvolution" where
  "deconvolution_5 i inp w b strd pd dil out_size output_padding =
     \<lparr>id' = i, input = [inp], output_paddings = [output_padding],
      pad = pd, stride = strd, dilations = dil,
      with_output_size = True, output_size = Some out_size, groups = 1,
      pads_begin = replicate (length pd) 0, pads_end = replicate (length pd) 0,
      out_padding = replicate (length pd) 0,
      grouped_weights_shape = False, output_partial_shape = [], output_shape_id = [],
      weights = w, bias = b\<rparr>"

definition deconvolution_6 ::
  "primitive_id \<Rightarrow> input_info \<Rightarrow> primitive_id list \<Rightarrow> primitive_id list \<Rightarrow> 32 word \<Rightarrow>
   Strides \<Rightarrow> CoordinateDiff \<Rightarrow> Strides \<Rightarrow> 'tensor \<Rightarrow> bool \<Rightarrow> 'padding \<Rightarrow>
   ('tensor, 'padding) deconvolution" where
  "deconvolution_6 i inp w b grps strd pd dil out_size grouped output_padding =
     \<lparr>id' = i, input = [inp], output_paddings = [output_padding],
      pad = pd, stride = strd, dilations = dil,
      with_output_size = True, output_size = Some out_size, groups = grps,
      pads_begin = replicate (length pd) 0, pads_end = replicate (length pd) 0,
      out_padding = replicate (length pd) 0,
      grouped_weights_shape = grouped, output_partial_shape = [], output_shape_id = [],
      weights = w, bias = b\<rparr>"

definition deconvolution_7 ::
  "primitive_id \<Rightarrow> input_info \<Rightarrow> primitive_id list \<Rightarrow> primitive_id list \<Rightarrow> 32 word \<Rightarrow>
   Strides \<Rightarrow> CoordinateDiff \<Rightarrow> Strides \<Rightarrow> CoordinateDiff \<Rightarrow> CoordinateDiff \<Rightarrow>
   CoordinateDiff \<Rightarrow> bool \<Rightarrow> 'padding \<Rightarrow> ('tensor, 'padding) deconvolution" where
  "deconvolution_7 i inp w b grps strd pd dil pb pe op grouped output_padding =
     \<lparr>id' = i, input = [inp], output_paddings = [output_padding],
      pad = pd, stride = strd, dilations = dil,
      with_output_size = False, output_size = None, groups = grps,
      pads_begin = pb, pads_end = pe, out_padding = op,
      grouped_weights_shape = grouped, output_partial_shape = [], output_shape_id = [],
      weights = w, bias = b\<rparr>"

text \<open>The eighth constructor names neither \<open>output_partial_shape\<close> nor \<open>output_shape_id\<close>
  in its initialiser list: both are default-constructed, the empty shape and the empty
  string.\<close>

definition deconvolution_8 ::
  "primitive_id \<Rightarrow> input_info \<Rightarrow> primitive_id list \<Rightarrow> Strides \<Rightarrow> CoordinateDiff \<Rightarrow>
   Strides \<Rightarrow> 'tensor \<Rightarrow> 'padding \<Rightarrow> ('tensor, 'padding) deconvolution" where
  "deconvolution_8 i inp w strd pd dil out_size output_padding =
     \<lparr>id' = i, input = [inp], output_paddings = [output_padding],
      pad = pd, stride = strd, dilations = dil,
      with_output_size = True, output_size = Some out_size, groups = 1,
      pads_begin = replicate (length pd) 0, pads_end = replicate (length pd) 0,
      out_padding = replicate (length pd) 0,
      grouped_weights_shape = False, output_partial_shape = [], output_shape_id = [],
      weights = w, bias = []\<rparr>"

definition create_with_output_size ::
  "primitive_id \<Rightarrow> input_info \<Rightarrow> primitive_id list \<Rightarrow> primitive_id list \<Rightarrow> 'tensor \<Rightarrow>
   Strides \<Rightarrow> CoordinateDiff \<Rightarrow> Strides \<Rightarrow> 'padding \<Rightarrow> ('tensor, 'padding) deconvolution" where
  "create_with_output_size i inp w b out_size strd pd dil output_padding =
     deconvolution_5 i inp w b strd pd dil out_size output_padding"

definition create_with_output_size_no_bias ::
  "primitive_id \<Rightarrow> input_info \<Rightarrow> primitive_id list \<Rightarrow> 'tensor \<Rightarrow>
   Strides \<Rightarrow> CoordinateDiff \<Rightarrow> Strides \<Rightarrow> 'padding \<Rightarrow> ('tensor, 'padding) deconvolution" where
  "create_with_output_size_no_bias i inp w out_size strd pd dil output_padding =
     deconvolution_8 i inp w strd pd dil out_size output_padding"

text \<open>\<^verbatim>\<open>get_dependencies\<close>: the loop over \<open>weights\<close>, the loop over \<open>bias\<close>, then the
  guarded \<^verbatim>\<open>push_back\<close> of \<open>output_shape_id\<close>. \<^verbatim>\<open>reserve\<close> changes no contents.\<close>

fun push_back_all :: "primitive_id list \<Rightarrow> primitive_id list \<Rightarrow> primitive_id list" where
  "push_back_all ret [] = ret"
| "push_back_all ret (w # ws) = push_back_all (ret @ [w]) ws"

definition get_dependencies ::
  "('tensor, 'padding, 'more) deconvolution_scheme \<Rightarrow> primitive_id list" where
  "get_dependencies d =
     (let ret0 = [];
          ret1 = push_back_all ret0 (weights d);
          ret2 = push_back_all ret1 (bias d)
      in if output_shape_id d \<noteq> [] then ret2 @ [output_shape_id d] else ret2)"

section \<open>Errors\<close>

text \<open>Modelled from the spec: the error kinds of the compiler core (section 7 of the
  spec), from \<open>InvalidGraph\<close> to \<open>ConvergenceExceeded\<close>; the exception classes are not
  among the sources. The last two constructors are the failures of the lowering code of
  \<^verbatim>\<open>reorg_yolo.cpp\<close> itself: \<^verbatim>\<open>validate_inputs_count\<close> rejecting the node (with the node's
  id and its input count), and a read at index 0 of an empty vector, which C++ leaves
  undefined and the model records as \<open>OutOfRange\<close>.\<close>

datatype error =
    InvalidGraph string
  | CycleDetected
  | UnsupportedConversion
  | UnsupportedOperation string
  | ShapeMismatch
  | StaticShapeRequired
  | UnresolvedDependency string
  | ConvergenceExceeded
  | InvalidInputsCount string nat
  | OutOfRange

section \<open>The graph model\<close>

text \<open>Modelled from the spec: the data model of section 3 of the spec (tensor
  descriptor, output slot, input value, node, graph); the classes of the graph library
  are not among the sources. A dimension of a shape may be dynamic (\<open>None\<close>), a layout is
  the list of its axis labels.\<close>

datatype element_type = f32 | f16 | u8 | i8

record tensor_descriptor =
  element_type :: element_type
  shape :: PartialShape
  layout :: "string list"

record output_slot =
  slot_name :: string
  descriptor :: tensor_descriptor

text \<open>An input value refers to an output slot of another node by the producer's id and
  the slot's index; it never owns the producer.\<close>

record input_value =
  producer :: string
  slot :: nat

text \<open>A node: its generated id (what \<^verbatim>\<open>layer_type_name_ID\<close> returns for it), its
  operation kind, its inputs and output slots, and the one attribute that
  \<^verbatim>\<open>CreateReorgYoloOp\<close> reads, the strides of a \<^verbatim>\<open>ReorgYolo\<close> operation. The nodes of a
  graph are kept in insertion order.\<close>

record node =
  node_id :: string
  type_name :: string
  inputs :: "input_value list"
  outputs :: "output_slot list"
  strides :: Strides

record graph =
  nodes :: "node list"

text \<open>Modelled from the spec: \<^verbatim>\<open>validate()\<close> of the Graph Model, which is not among the
  sources. It walks the nodes in insertion order and reports the first
  violation of the graph invariant: node ids are not repeated, a Parameter has no
  inputs, every input of a node refers to an existing output slot of a node that
  precedes it, and the output-slot names of a node are not repeated.\<close>

definition input_ok :: "node list \<Rightarrow> input_value \<Rightarrow> bool" where
  "input_ok seen i =
     list_ex (\<lambda>m. node_id m = producer i \<and> slot i < length (outputs m)) seen"

fun validate_nodes :: "node list \<Rightarrow> node list \<Rightarrow> error + unit" where
  "validate_nodes seen [] = Inr ()"
| "validate_nodes seen (n # ns) =
     (if node_id n \<in> set (map node_id seen) then
        Inl (InvalidGraph (''duplicate node '' @ node_id n))
      else if type_name n = ''Parameter'' \<and> inputs n \<noteq> [] then
        Inl (InvalidGraph (''Parameter with inputs '' @ node_id n))
      else if \<not> list_all (input_ok seen) (inputs n) then
        Inl (InvalidGraph (''input does not precede '' @ node_id n))
      else if \<not> distinct (map slot_name (outputs n)) then
        Inl (InvalidGraph (''duplicate output slot in '' @ node_id n))
      else validate_nodes (seen @ [n]) ns)"

definition validate :: "graph \<Rightarrow> error + unit" where
  "validate g = validate_nodes [] (nodes g)"

text \<open>Modelled from the spec: \<^verbatim>\<open>topological_order()\<close> of the Graph Model, which is not
  among the sources. A node is ready when none of its inputs is produced by a
  node still waiting; each round emits the first ready node in insertion order, and a
  round with nodes waiting and none ready reports \<open>CycleDetected\<close>.\<close>

definition ready :: "node list \<Rightarrow> node \<Rightarrow> bool" where
  "ready waiting n = list_all (\<lambda>i. producer i \<notin> set (map node_id waiting)) (inputs n)"

fun pick_ready :: "node list \<Rightarrow> node list \<Rightarrow> node list \<Rightarrow> (node \<times> node list) option" where
  "pick_ready waiting skipped [] = None"
| "pick_ready waiting skipped (n # ns) =
     (if ready waiting n then Some (n, skipped @ ns)
      else pick_ready waiting (skipped @ [n]) ns)"

lemma pick_ready_length:
  "pick_ready waiting skipped ns = Some (n, rest) \<Longrightarrow> Suc (length rest) = length skipped + length ns"
proof (induction ns arbitrary: skipped)
  case Nil
  then show ?case by simp
next
  case (Cons a ns)
  show ?case
  proof (cases "ready waiting a")
    case True
    with Cons.prems show ?thesis by auto
  next
    case False
    with Cons.prems have "pick_ready waiting (skipped @ [a]) ns = Some (n, rest)" by simp
    from Cons.IH [OF this] show ?thesis by simp
  qed
qed

function topo_loop :: "node list \<Rightarrow> node list \<Rightarrow> error + node list" where
  "topo_loop waiting emitted =
     (if waiting = [] then Inr emitted
      else (case pick_ready waiting [] waiting of
              None \<Rightarrow> Inl CycleDetected
            | Some (n, rest) \<Rightarrow> topo_loop rest (emitted @ [n])))"
  by pat_completeness auto
termination
  by (relation "measure (\<lambda>(waiting, emitted). length waiting)")
     (auto dest: pick_ready_length)

declare topo_loop.simps [simp del]

definition topological_order :: "graph \<Rightarrow> error + node list" where
  "topological_order g = topo_loop (nodes g) []"

text \<open>A list of nodes is topologically sorted when no node has an input produced by
  itself or by a node after it.\<close>

fun topo_sorted :: "node list \<Rightarrow> bool" where
  "topo_sorted [] = True"
| "topo_sorted (n # ns) = (ready (n # ns) n \<and> topo_sorted ns)"

text \<open>The dependency relation of a list of nodes: \<open>(a, b)\<close> when the node with id \<open>b\<close>
  has an input produced by \<open>a\<close>. A graph is acyclic when this relation is.\<close>

definition depends_on :: "node list \<Rightarrow> (string \<times> string) set" where
  "depends_on ns = {(a, b). \<exists>n\<in>set ns. node_id n = b \<and> a \<in> producer ` set (inputs n)}"

section \<open>The primitive program\<close>

text \<open>Modelled from the spec: a record of the Primitive Program handed to the
  execution backend (primitive id, primitive kind, parameter bag, ordered dependencies).
  The header declaring \<^verbatim>\<open>cldnn::reorg_yolo\<close> is not among the sources;
  \<open>reorg_yolo\<close> builds the record from the three constructor arguments of the call in
  \<^verbatim>\<open>CreateReorgYoloOp\<close>.\<close>

record primitive =
  prim_id :: primitive_id
  prim_kind :: string
  prim_params :: "(string \<times> 32 word) list"
  prim_input :: "input_info list"

definition reorg_yolo :: "primitive_id \<Rightarrow> input_info \<Rightarrow> 32 word \<Rightarrow> primitive" where
  "reorg_yolo i inp strd =
     \<lparr>prim_id = i, prim_kind = ''reorg_yolo'', prim_params = [(''stride'', strd)],
      prim_input = [inp]\<rparr>"

text \<open>Modelled from the spec: the program under construction, whose class \<^verbatim>\<open>Program\<close> is
  not among the sources. It holds the primitives emitted so far, in emission order, and
  the registrations (node id, anchor primitive id), in registration order.\<close>

record Program =
  topology :: "primitive list"
  primitive_ids :: "(string \<times> primitive_id) list"

text \<open>Modelled from the spec: the lookup of the primitive id registered for a node id.
  The latest registration of an id is the one in force.\<close>

definition lookup_primitive_id :: "Program \<Rightarrow> string \<Rightarrow> primitive_id option" where
  "lookup_primitive_id p k = map_of (rev (primitive_ids p)) k"

text \<open>Modelled from the spec: \<^verbatim>\<open>layer_type_name_ID\<close> of \<^verbatim>\<open>common_utils.hpp\<close>, which is not
  among the sources. It returns the node's generated id.\<close>

definition layer_type_name_ID :: "node \<Rightarrow> string" where
  "layer_type_name_ID op = node_id op"

text \<open>Modelled from the spec: \<^verbatim>\<open>validate_inputs_count\<close> of \<^verbatim>\<open>common_utils.hpp\<close>, which is
  not among the sources. It accepts a node whose input count is one of the listed
  counts and throws otherwise.\<close>

definition validate_inputs_count :: "node \<Rightarrow> nat list \<Rightarrow> error + unit" where
  "validate_inputs_count op valid_inputs_count =
     (if length (inputs op) \<in> set valid_inputs_count then Inr ()
      else Inl (InvalidInputsCount (node_id op) (length (inputs op))))"

text \<open>Modelled from the spec: \<^verbatim>\<open>Program::GetInputInfo\<close>, which is not among the sources.
  It resolves each input, in order, to the primitive id registered for its producer and
  fails with \<open>UnresolvedDependency\<close> at the first producer that has none.\<close>

fun resolve_inputs :: "Program \<Rightarrow> input_value list \<Rightarrow> error + input_info list" where
  "resolve_inputs p [] = Inr []"
| "resolve_inputs p (i # rest) =
     (case lookup_primitive_id p (producer i) of
        None \<Rightarrow> Inl (UnresolvedDependency (producer i))
      | Some prev \<Rightarrow>
          (case resolve_inputs p rest of
             Inl e \<Rightarrow> Inl e
           | Inr infos \<Rightarrow> Inr (\<lparr>pid = prev, idx = slot i\<rparr> # infos)))"

definition GetInputInfo :: "Program \<Rightarrow> node \<Rightarrow> error + input_info list" where
  "GetInputInfo p op = resolve_inputs p (inputs op)"

text \<open>Modelled from the spec: \<^verbatim>\<open>Program::add_primitive\<close>, which is not among the sources.
  It emits the primitive and registers its id under the node's generated id.\<close>

definition add_primitive :: "Program \<Rightarrow> node \<Rightarrow> primitive \<Rightarrow> Program" where
  "add_primitive p op prim =
     \<lparr>topology = topology p @ [prim],
      primitive_ids = primitive_ids p @ [(layer_type_name_ID op, prim_id prim)]\<rparr>"

text \<open>\<^verbatim>\<open>CreateReorgYoloOp\<close>, statement by statement. The conversion of \<^verbatim>\<open>size_t\<close> to
  \<^verbatim>\<open>uint32_t\<close> keeps the low 32 bits (\<open>ucast\<close>). After \<open>validate_inputs_count\<close> the vector
  \<open>inputs\<close> has one element; the read \<open>inputs[0]\<close> of an empty vector is written out all
  the same.\<close>

definition CreateReorgYoloOp :: "Program \<Rightarrow> node \<Rightarrow> error + Program" where
  "CreateReorgYoloOp p op =
     (case validate_inputs_count op [1] of
        Inl e \<Rightarrow> Inl e
      | Inr _ \<Rightarrow>
          (case GetInputInfo p op of
             Inl e \<Rightarrow> Inl e
           | Inr inputs' \<Rightarrow>
               (let layerName = layer_type_name_ID op in
                case strides op of
                  [] \<Rightarrow> Inl OutOfRange
                | s # _ \<Rightarrow>
                    (let stride' = (ucast s :: 32 word) in
                     case inputs' of
                       [] \<Rightarrow> Inl OutOfRange
                     | inp # _ \<Rightarrow>
                         (let reorgPrim = reorg_yolo layerName inp stride'
                          in Inr (add_primitive p op reorgPrim))))))"








section \<open>The fixed-point pipeline of the low-precision engine\<close>

text \<open>Modelled from the spec: the pipeline driver of the Low-Precision Transformation
  Engine, which is not among the sources. A pass maps a graph to a rewritten
  graph or to no match. One round runs the configured passes in order, each on the
  graph the earlier ones left, and tells whether any of them matched. Rounds repeat
  until one of them matches nothing; when the configured number of rounds is used up
  the graph reached is returned together with \<open>ConvergenceExceeded\<close>.\<close>

type_synonym pass = "graph \<Rightarrow> graph option"

fun run_passes :: "pass list \<Rightarrow> graph \<Rightarrow> graph \<times> bool" where
  "run_passes [] g = (g, False)"
| "run_passes (t # ts) g =
     (case t g of
        None \<Rightarrow> run_passes ts g
      | Some g' \<Rightarrow> (fst (run_passes ts g'), True))"

fun run_pipeline :: "nat \<Rightarrow> pass list \<Rightarrow> graph \<Rightarrow> error option \<times> graph" where
  "run_pipeline 0 ts g = (Some ConvergenceExceeded, g)"
| "run_pipeline (Suc k) ts g =
     (case run_passes ts g of
        (g', False) \<Rightarrow> (None, g')
      | (g', True) \<Rightarrow> run_pipeline k ts g')"

section \<open>The reader smart pointer of the samples\<close>

text \<open>\<^verbatim>\<open>FormatReader::Reader\<close> is declared in \<^verbatim>\<open>format_reader.h\<close>, which is not among the
  sources; the record holds what the samples read from it. A pointer to a reader is an
  option, \<open>None\<close> the null pointer. \<^verbatim>\<open>CreateFormatReader\<close> is declared in the same header
  and is a parameter of the constructor.\<close>

record Reader =
  width :: nat
  height :: nat
  getData :: "8 word list"

record ReaderPtr =
  reader :: "Reader option"

definition ReaderPtr_ctor :: "(string \<Rightarrow> Reader option) \<Rightarrow> string \<Rightarrow> ReaderPtr" where
  "ReaderPtr_ctor CreateFormatReader imageName = \<lparr>reader = CreateFormatReader imageName\<rparr>"

definition operator_arrow :: "ReaderPtr \<Rightarrow> Reader option" where
  "operator_arrow p = reader p"

definition operator_star :: "ReaderPtr \<Rightarrow> Reader option" where
  "operator_star p = reader p"

definition get :: "ReaderPtr \<Rightarrow> Reader option" where
  "get p = reader p"

text \<open>Step 3 of \<^verbatim>\<open>tmain\<close> in \<^verbatim>\<open>hello_classification\<close>: the reader is constructed, a null
  reader throws \<^verbatim>\<open>std::logic_error("")\<close>, and only then is the reader used through
  \<^verbatim>\<open>operator->\<close> for the shape \<open>{1, height, width, 3}\<close> and the data. A member access
  through a null pointer is written out as \<open>null_dereference\<close>.\<close>

datatype exn = logic_error string | null_dereference

definition member_access :: "Reader option \<Rightarrow> (Reader \<Rightarrow> 'a) \<Rightarrow> exn + 'a" where
  "member_access ptr field = (case ptr of None \<Rightarrow> Inl null_dereference | Some r \<Rightarrow> Inr (field r))"

definition tmain_step3 ::
  "(string \<Rightarrow> Reader option) \<Rightarrow> string \<Rightarrow> exn + (element_type \<times> nat list \<times> 8 word list)" where
  "tmain_step3 CreateFormatReader image_path =
     (let reader' = ReaderPtr_ctor CreateFormatReader image_path in
      if get reader' = None then Inl (logic_error [])
      else
        (let input_type = u8 in
         case member_access (operator_arrow reader') height of
           Inl e \<Rightarrow> Inl e
         | Inr h \<Rightarrow>
             (case member_access (operator_arrow reader') width of
                Inl e \<Rightarrow> Inl e
              | Inr w \<Rightarrow>
                  (case member_access (operator_arrow reader') getData of
                     Inl e \<Rightarrow> Inl e
                   | Inr input_data \<Rightarrow> Inr (input_type, [1, h, w, 3], input_data)))))"

section \<open>Dependencies of a deconvolution\<close>

lemma push_back_all_append: "push_back_all ret ws = ret @ ws"
  by (induction ws arbitrary: ret) simp_all

text \<open>C9. For every deconvolution primitive \<open>get_dependencies\<close> returns the weights ids,
  then the bias ids, then \<open>output_shape_id\<close> when and only when it is not empty, in that
  order. A deconvolution with no bias and no output-shape primitive therefore has
  exactly as many such dependencies as it has weights; this is the case for each
  constructor and factory without a bias parameter.\<close>

theorem get_dependencies_order:
  "get_dependencies d =
     weights d @ bias d @ (if output_shape_id d \<noteq> [] then [output_shape_id d] else [])
   \<and> (bias d = [] \<and> output_shape_id d = [] \<longrightarrow>
        length (get_dependencies d) = length (weights d))
   \<and> length (get_dependencies (deconvolution_3 i inp w strd pd dil opad)) = length w
   \<and> length (get_dependencies (deconvolution_4 i inp w grps strd pd dil opad)) = length w
   \<and> length (get_dependencies (deconvolution_8 i inp w strd pd dil osz opad)) = length w
   \<and> length (get_dependencies (create_with_output_size_no_bias i inp w osz strd pd dil opad))
        = length w"
  by (simp add: get_dependencies_def push_back_all_append deconvolution_3_def
      deconvolution_4_def deconvolution_8_def create_with_output_size_no_bias_def)

theorem get_dependencies_order_witness:
  "get_dependencies
     (deconvolution_3 ''deconv'' \<lparr>pid = ''in'', idx = 0\<rparr> [''w0'', ''w1''] [1, 1] [0, 0] [1, 1] ()
        :: (unit, unit) deconvolution) = [''w0'', ''w1'']
   \<and> get_dependencies
     ((deconvolution_1 ''deconv'' \<lparr>pid = ''in'', idx = 0\<rparr> [''w0''] [''b0''] [1, 1] [0, 0] [1, 1] ()
        :: (unit, unit) deconvolution)\<lparr>output_shape_id := ''shape''\<rparr>) = [''w0'', ''b0'', ''shape'']"
proof -
  note no_bias = get_dependencies_order [THEN conjunct1,
    of "deconvolution_3 ''deconv'' \<lparr>pid = ''in'', idx = 0\<rparr> [''w0'', ''w1''] [1, 1] [0, 0] [1, 1] ()
        :: (unit, unit) deconvolution"]
  note with_shape = get_dependencies_order [THEN conjunct1,
    of "(deconvolution_1 ''deconv'' \<lparr>pid = ''in'', idx = 0\<rparr> [''w0''] [''b0''] [1, 1] [0, 0] [1, 1] ()
        :: (unit, unit) deconvolution)\<lparr>output_shape_id := ''shape''\<rparr>"]
  show ?thesis
    using no_bias with_shape by (simp add: deconvolution_3_def deconvolution_1_def)
qed

section \<open>The reader pointer and its caller\<close>

text \<open>C10. The constructor stores what \<open>CreateFormatReader\<close> returns, and \<open>get\<close>,
  \<open>operator->\<close> and \<open>operator*\<close> forward that pointer as it is. For an image that cannot
  be read (a null reader) all three return null, \<open>tmain\<close> throws its \<open>logic_error\<close>
  after the check of \<open>get\<close>, and on no input does \<open>tmain\<close> reach a member access through
  a null reader.\<close>

theorem ReaderPtr_null:
  "get (ReaderPtr_ctor CreateFormatReader imageName) = CreateFormatReader imageName
   \<and> operator_arrow (ReaderPtr_ctor CreateFormatReader imageName) = CreateFormatReader imageName
   \<and> operator_star (ReaderPtr_ctor CreateFormatReader imageName) = CreateFormatReader imageName
   \<and> (CreateFormatReader imageName = None \<longrightarrow>
        get (ReaderPtr_ctor CreateFormatReader imageName) = None
        \<and> operator_arrow (ReaderPtr_ctor CreateFormatReader imageName) = None
        \<and> operator_star (ReaderPtr_ctor CreateFormatReader imageName) = None
        \<and> member_access (operator_arrow (ReaderPtr_ctor CreateFormatReader imageName)) height
            = Inl null_dereference
        \<and> tmain_step3 CreateFormatReader imageName = Inl (logic_error []))
   \<and> tmain_step3 CreateFormatReader imageName \<noteq> Inl null_dereference"
  by (cases "CreateFormatReader imageName")
     (simp_all add: get_def operator_arrow_def operator_star_def ReaderPtr_ctor_def
        tmain_step3_def member_access_def)

theorem ReaderPtr_null_witness:
  "get (ReaderPtr_ctor
          (\<lambda>name. if name = ''cat.bmp''
                   then Some \<lparr>width = 2, height = 1, getData = [1, 2, 3, 4, 5, 6]\<rparr> else None)
          ''missing.bmp'') = None
   \<and> tmain_step3
        (\<lambda>name. if name = ''cat.bmp''
                 then Some \<lparr>width = 2, height = 1, getData = [1, 2, 3, 4, 5, 6]\<rparr> else None)
        ''missing.bmp'' = Inl (logic_error [])"
  using ReaderPtr_null
    [of "\<lambda>name. if name = ''cat.bmp''
                 then Some \<lparr>width = 2, height = 1, getData = [1, 2, 3, 4, 5, 6]\<rparr> else None"
        "''missing.bmp''"]
  by simp

section \<open>Lowering a ReorgYolo node\<close>

text \<open>C8, as amended. \<open>CreateReorgYoloOp\<close> fails when the input count differs from 1, and
  also when the count is 1 and the producer of that input has no registered primitive.
  When the count is 1, the producer is registered and the strides attribute is not
  empty, it emits exactly one primitive of kind \<open>reorg_yolo\<close>, whose id is the layer's
  name, whose input is the producer's primitive and whose stride is the first element
  of the strides attribute cut to 32 bits, and registers it under the layer's name.\<close>

theorem CreateReorgYoloOp_registers:
  "(length (inputs op) \<noteq> 1 \<longrightarrow>
      CreateReorgYoloOp p op = Inl (InvalidInputsCount (node_id op) (length (inputs op))))
   \<and> (inputs op = [i] \<and> lookup_primitive_id p (producer i) = None \<longrightarrow>
      CreateReorgYoloOp p op = Inl (UnresolvedDependency (producer i)))
   \<and> (inputs op = [i] \<and> lookup_primitive_id p (producer i) = Some prev \<and> strides op = s # rest \<longrightarrow>
      CreateReorgYoloOp p op =
        Inr \<lparr>topology = topology p @
                [\<lparr>prim_id = layer_type_name_ID op, prim_kind = ''reorg_yolo'',
                  prim_params = [(''stride'', ucast s)],
                  prim_input = [\<lparr>pid = prev, idx = slot i\<rparr>]\<rparr>],
              primitive_ids = primitive_ids p @ [(layer_type_name_ID op, layer_type_name_ID op)]\<rparr>)"
  by (simp add: CreateReorgYoloOp_def validate_inputs_count_def GetInputInfo_def
      add_primitive_def reorg_yolo_def Let_def)

text \<open>The claim as first stated promises a registration whenever the input count is 1.
  A node with one input whose producer has not been emitted is refused.\<close>

theorem CreateReorgYoloOp_unresolved_counterexample:
  "length (inputs \<lparr>node_id = ''reorgyolo:r'', type_name = ''ReorgYolo'',
             inputs = [\<lparr>producer = ''parameter:data'', slot = 0\<rparr>], outputs = [],
             strides = [2, 2]\<rparr>) = 1
   \<and> CreateReorgYoloOp \<lparr>topology = [], primitive_ids = []\<rparr>
       \<lparr>node_id = ''reorgyolo:r'', type_name = ''ReorgYolo'',
        inputs = [\<lparr>producer = ''parameter:data'', slot = 0\<rparr>], outputs = [],
        strides = [2, 2]\<rparr> = Inl (UnresolvedDependency ''parameter:data'')"
  by (simp add: CreateReorgYoloOp_def validate_inputs_count_def GetInputInfo_def
      lookup_primitive_id_def)

theorem CreateReorgYoloOp_registers_witness:
  "CreateReorgYoloOp
     \<lparr>topology = [\<lparr>prim_id = ''parameter:data'', prim_kind = ''input_layout'', prim_params = [],
                   prim_input = []\<rparr>],
      primitive_ids = [(''parameter:data'', ''parameter:data'')]\<rparr>
     \<lparr>node_id = ''reorgyolo:r'', type_name = ''ReorgYolo'',
      inputs = [\<lparr>producer = ''parameter:data'', slot = 0\<rparr>], outputs = [],
      strides = [2, 2]\<rparr>
   = Inr \<lparr>topology =
           [\<lparr>prim_id = ''parameter:data'', prim_kind = ''input_layout'', prim_params = [],
             prim_input = []\<rparr>,
            \<lparr>prim_id = ''reorgyolo:r'', prim_kind = ''reorg_yolo'', prim_params = [(''stride'', 2)],
             prim_input = [\<lparr>pid = ''parameter:data'', idx = 0\<rparr>]\<rparr>],
         primitive_ids = [(''parameter:data'', ''parameter:data''), (''reorgyolo:r'', ''reorgyolo:r'')]\<rparr>
   \<and> (\<exists>e. CreateReorgYoloOp \<lparr>topology = [], primitive_ids = []\<rparr>
       \<lparr>node_id = ''reorgyolo:r'', type_name = ''ReorgYolo'', inputs = [], outputs = [],
        strides = [2, 2]\<rparr> = Inl e)"
proof -
  let ?p = "\<lparr>topology = [\<lparr>prim_id = ''parameter:data'', prim_kind = ''input_layout'', prim_params = [],
                   prim_input = []\<rparr>],
      primitive_ids = [(''parameter:data'', ''parameter:data'')]\<rparr>"
  let ?i = "\<lparr>producer = ''parameter:data'', slot = 0\<rparr>"
  let ?op = "\<lparr>node_id = ''reorgyolo:r'', type_name = ''ReorgYolo'',
      inputs = [?i], outputs = [], strides = [2, 2 :: 64 word]\<rparr>"
  note ok = CreateReorgYoloOp_registers [THEN conjunct2, THEN conjunct2,
      of ?op ?i ?p "''parameter:data''" 2 "[2]"]
  note bad = CreateReorgYoloOp_registers [THEN conjunct1,
      of "\<lparr>node_id = ''reorgyolo:r'', type_name = ''ReorgYolo'', inputs = [], outputs = [],
        strides = [2, 2]\<rparr>" "\<lparr>topology = [], primitive_ids = []\<rparr>"]
  show ?thesis
    using ok bad by (simp add: lookup_primitive_id_def layer_type_name_ID_def)
qed

section \<open>Idempotence of the converged pipeline\<close>

lemma run_passes_no_match:
  "run_passes ts g = (g', False) \<Longrightarrow> g' = g \<and> (\<forall>t\<in>set ts. t g = None)"
  by (induction ts arbitrary: g) (auto split: option.splits)

lemma run_pipeline_converged_fixed:
  "run_pipeline n ts g = (None, g') \<Longrightarrow> run_passes ts g' = (g', False)"
proof (induction n arbitrary: g)
  case 0
  then show ?case by simp
next
  case (Suc k)
  obtain g1 b where r: "run_passes ts g = (g1, b)" by (cases "run_passes ts g")
  show ?case
  proof (cases b)
    case True
    with Suc.prems r have "run_pipeline k ts g1 = (None, g')" by simp
    then show ?thesis by (rule Suc.IH)
  next
    case False
    with Suc.prems r have "g' = g1" by simp
    moreover from r False have "g1 = g" by (auto dest: run_passes_no_match)
    ultimately show ?thesis using r False by simp
  qed
qed

text \<open>C2. When a run of the pipeline on a graph converges to \<open>g'\<close>, a second run on \<open>g'\<close>
  with the same passes and the same bound converges as well and returns \<open>g'\<close> itself:
  no pass matches on \<open>g'\<close>.\<close>

theorem run_pipeline_idempotent:
  "run_pipeline max_iter ts g = (None, g') \<Longrightarrow>
     run_pipeline max_iter ts g' = (None, g') \<and> (\<forall>t\<in>set ts. t g' = None)"
proof -
  assume a: "run_pipeline max_iter ts g = (None, g')"
  then have fixed: "run_passes ts g' = (g', False)" by (rule run_pipeline_converged_fixed)
  from a obtain k where "max_iter = Suc k" by (cases max_iter) auto
  with fixed have "run_pipeline max_iter ts g' = (None, g')" by simp
  moreover from fixed have "\<forall>t\<in>set ts. t g' = None" by (auto dest: run_passes_no_match)
  ultimately show ?thesis by simp
qed

theorem run_pipeline_idempotent_witness:
  "run_pipeline 3
     [\<lambda>g. if nodes g = [] then None else Some (g\<lparr>nodes := butlast (nodes g)\<rparr>)]
     \<lparr>nodes = [\<lparr>node_id = ''a'', type_name = ''Parameter'', inputs = [], outputs = [], strides = []\<rparr>]\<rparr>
     = (None, \<lparr>nodes = []\<rparr>)
   \<and> run_pipeline 3
     [\<lambda>g. if nodes g = [] then None else Some (g\<lparr>nodes := butlast (nodes g)\<rparr>)]
     \<lparr>nodes = []\<rparr> = (None, \<lparr>nodes = []\<rparr>)"
proof -
  let ?t = "\<lambda>g. if nodes g = [] then None else Some (g\<lparr>nodes := butlast (nodes g)\<rparr>)"
  let ?g = "\<lparr>nodes = [\<lparr>node_id = ''a'', type_name = ''Parameter'', inputs = [], outputs = [],
                        strides = []\<rparr>]\<rparr>"
  have first: "run_pipeline 3 [?t] ?g = (None, \<lparr>nodes = []\<rparr>)"
    by (simp add: eval_nat_numeral)
  from run_pipeline_idempotent [OF first] first show ?thesis by simp
qed

section \<open>Topological order of a valid graph\<close>

lemma topo_loop_Nil: "topo_loop [] emitted = Inr emitted"
  by (subst topo_loop.simps) simp

lemma topo_loop_Cons:
  "topo_loop (n # ns) emitted =
     (case pick_ready (n # ns) [] (n # ns) of
        None \<Rightarrow> Inl CycleDetected
      | Some (m, rest) \<Rightarrow> topo_loop rest (emitted @ [m]))"
  by (subst topo_loop.simps) simp

lemma validate_nodes_disjoint:
  "validate_nodes seen ns = Inr () \<Longrightarrow> node_id ` set seen \<inter> node_id ` set ns = {}"
proof (induction ns arbitrary: seen)
  case Nil
  then show ?case by simp
next
  case (Cons n ns)
  from Cons.prems have fresh: "node_id n \<notin> node_id ` set seen"
    and rest: "validate_nodes (seen @ [n]) ns = Inr ()"
    by (auto split: if_splits)
  from Cons.IH [OF rest] fresh show ?case by auto
qed


lemma input_ok_producer: "input_ok seen i \<Longrightarrow> producer i \<in> node_id ` set seen"
proof -
  assume "input_ok seen i"
  then obtain m where "m \<in> set seen" "node_id m = producer i"
    by (auto simp: input_ok_def list_ex_iff)
  then show ?thesis by (metis imageI)
qed

lemma validate_nodes_head_ready:
  assumes "validate_nodes seen (n # ns) = Inr ()"
  shows "ready (n # ns) n"
proof -
  from assms have ok: "list_all (input_ok seen) (inputs n)"
    by (auto split: if_splits)
  from validate_nodes_disjoint [OF assms]
  have disj: "node_id ` set seen \<inter> node_id ` set (n # ns) = {}" .
  show ?thesis
    unfolding ready_def list_all_iff
  proof
    fix i assume "i \<in> set (inputs n)"
    with ok have "producer i \<in> node_id ` set seen"
      by (auto simp: list_all_iff dest: input_ok_producer)
    with disj show "producer i \<notin> set (map node_id (n # ns))" by auto
  qed
qed

lemma validate_nodes_topo_loop:
  "validate_nodes seen ns = Inr () \<Longrightarrow> topo_loop ns emitted = Inr (emitted @ ns)"
proof (induction ns arbitrary: seen emitted)
  case Nil
  then show ?case by (simp add: topo_loop_Nil)
next
  case (Cons n ns)
  from Cons.prems have rest: "validate_nodes (seen @ [n]) ns = Inr ()"
    by (auto split: if_splits)
  have "ready (n # ns) n" using Cons.prems by (rule validate_nodes_head_ready)
  then have "topo_loop (n # ns) emitted = topo_loop ns (emitted @ [n])"
    by (simp add: topo_loop_Cons)
  also have "\<dots> = Inr ((emitted @ [n]) @ ns)" using rest by (rule Cons.IH)
  finally show ?case by simp
qed

lemma pick_ready_None: "pick_ready waiting skipped ns = None \<Longrightarrow> \<forall>n\<in>set ns. \<not> ready waiting n"
  by (induction ns arbitrary: skipped) (auto split: if_splits)

lemma pick_ready_Some:
  "pick_ready waiting skipped ns = Some (n, rest) \<Longrightarrow>
     \<exists>pre post. ns = pre @ n # post \<and> rest = skipped @ pre @ post \<and> ready waiting n
       \<and> (\<forall>m\<in>set pre. \<not> ready waiting m)"
proof (induction ns arbitrary: skipped)
  case Nil
  then show ?case by simp
next
  case (Cons a ns)
  show ?case
  proof (cases "ready waiting a")
    case True
    with Cons.prems have "a = n" "rest = skipped @ ns" by auto
    with True show ?thesis by (intro exI [of _ "[]"] exI [of _ ns]) simp
  next
    case False
    with Cons.prems have "pick_ready waiting (skipped @ [a]) ns = Some (n, rest)" by simp
    from Cons.IH [OF this] obtain pre post where
      "ns = pre @ n # post" "rest = (skipped @ [a]) @ pre @ post" "ready waiting n"
      "\<forall>m\<in>set pre. \<not> ready waiting m" by blast
    with False show ?thesis by (intro exI [of _ "a # pre"] exI [of _ post]) simp
  qed
qed

lemma topo_loop_stuck:
  "topo_loop waiting emitted = Inl e \<Longrightarrow>
     e = CycleDetected \<and> (\<exists>w. w \<noteq> [] \<and> set w \<subseteq> set waiting \<and> (\<forall>n\<in>set w. \<not> ready w n))"
proof (induction waiting emitted rule: topo_loop.induct)
  case (1 waiting emitted)
  show ?case
  proof (cases "waiting = []")
    case True
    with "1.prems" show ?thesis by (simp add: topo_loop_Nil)
  next
    case False
    show ?thesis
    proof (cases "pick_ready waiting [] waiting")
      case None
      with False "1.prems" have "e = CycleDetected"
        by (subst (asm) topo_loop.simps) simp
      moreover from None have "\<forall>n\<in>set waiting. \<not> ready waiting n" by (rule pick_ready_None)
      ultimately show ?thesis using False by blast
    next
      case (Some a)
      obtain n rest where a: "a = (n, rest)" by (cases a)
      from Some a False "1.prems" have "topo_loop rest (emitted @ [n]) = Inl e"
        by (subst (asm) topo_loop.simps) simp
      from "1.IH" [OF False Some [unfolded a] refl this]
      obtain w where w: "e = CycleDetected" "w \<noteq> []" "set w \<subseteq> set rest" "\<forall>n\<in>set w. \<not> ready w n"
        by blast
      from pick_ready_Some [OF Some [unfolded a]] have "set rest \<subseteq> set waiting" by auto
      with w show ?thesis by blast
    qed
  qed
qed

lemma finite_depends_on: "finite (depends_on ns)"
proof -
  have "depends_on ns \<subseteq> (\<Union>n\<in>set ns. producer ` set (inputs n)) \<times> node_id ` set ns"
    by (auto simp: depends_on_def)
  moreover have "finite ((\<Union>n\<in>set ns. producer ` set (inputs n)) \<times> node_id ` set ns)"
    by simp
  ultimately show ?thesis by (rule finite_subset)
qed

lemma stuck_not_acyclic:
  assumes "w \<noteq> []" "set w \<subseteq> set ns" "\<forall>n\<in>set w. \<not> ready w n"
  shows "\<not> acyclic (depends_on ns)"
proof
  assume "acyclic (depends_on ns)"
  with finite_depends_on have "wf (depends_on ns)" by (rule finite_acyclic_wf)
  then have least: "\<forall>Q x. x \<in> Q \<longrightarrow> (\<exists>z\<in>Q. \<forall>y. (y, z) \<in> depends_on ns \<longrightarrow> y \<notin> Q)"
    by (simp add: wf_eq_minimal)
  from assms(1) obtain x where "x \<in> node_id ` set w" by (cases w) auto
  with least obtain z where z: "z \<in> node_id ` set w"
    and minimal: "\<And>y. (y, z) \<in> depends_on ns \<Longrightarrow> y \<notin> node_id ` set w"
    by blast
  from z obtain n where n: "n \<in> set w" "node_id n = z" by auto
  with assms(3) have "\<not> ready w n" by blast
  then obtain i where i: "i \<in> set (inputs n)" "producer i \<in> node_id ` set w"
    by (auto simp: ready_def list_all_iff)
  from n i(1) assms(2) have "(producer i, z) \<in> depends_on ns"
    by (auto simp: depends_on_def)
  from minimal [OF this] i(2) show False by contradiction
qed


lemma ready_cong_set: "set w = set w' \<Longrightarrow> ready w n = ready w' n"
  by (simp add: ready_def)

lemma topo_loop_sorted:
  "topo_loop waiting emitted = Inr order \<Longrightarrow>
     \<exists>tail. order = emitted @ tail \<and> mset tail = mset waiting \<and> topo_sorted tail"
proof (induction waiting emitted rule: topo_loop.induct)
  case (1 waiting emitted)
  show ?case
  proof (cases "waiting = []")
    case True
    with "1.prems" show ?thesis by (simp add: topo_loop_Nil)
  next
    case False
    show ?thesis
    proof (cases "pick_ready waiting [] waiting")
      case None
      with False "1.prems" show ?thesis
        by (subst (asm) topo_loop.simps) simp
    next
      case (Some a)
      obtain n rest where a: "a = (n, rest)" by (cases a)
      from Some a False "1.prems" have "topo_loop rest (emitted @ [n]) = Inr order"
        by (subst (asm) topo_loop.simps) simp
      from "1.IH" [OF False Some [unfolded a] refl this]
      obtain tail where tail: "order = (emitted @ [n]) @ tail" "mset tail = mset rest"
        "topo_sorted tail" by blast
      from pick_ready_Some [OF Some [unfolded a]] obtain pre post where
        split: "waiting = pre @ n # post" "rest = pre @ post" and rdy: "ready waiting n"
        by auto
      from split tail(2) have perm: "mset (n # tail) = mset waiting" by simp
      then have "set (n # tail) = set waiting" by (rule mset_eq_setD)
      then have "ready (n # tail) n = ready waiting n" by (rule ready_cong_set)
      with rdy have "ready (n # tail) n" by blast
      with tail perm show ?thesis by (intro exI [of _ "n # tail"]) simp
    qed
  qed
qed

text \<open>C7. On a valid graph \<open>topological_order\<close> succeeds and returns the nodes in
  insertion order, and \<open>validate\<close> accepts the graph with its nodes in the order
  returned. \<open>topological_order\<close> fails with \<open>CycleDetected\<close> and nothing else, and only
  when the dependency relation of the graph has a cycle; on an acyclic graph it
  succeeds. Whatever it returns is a permutation of the nodes in which no node has an
  input produced by itself or by a later node. In every round the node emitted is the
  first ready node in insertion order, and the nodes left keep their order.\<close>

theorem topological_order_valid:
  "(validate g = Inr () \<longrightarrow>
      topological_order g = Inr (nodes g)
      \<and> (\<forall>order. topological_order g = Inr order \<longrightarrow> validate (g\<lparr>nodes := order\<rparr>) = Inr ()))
   \<and> (\<forall>e. topological_order g = Inl e \<longrightarrow> e = CycleDetected \<and> \<not> acyclic (depends_on (nodes g)))
   \<and> (acyclic (depends_on (nodes g)) \<longrightarrow> (\<exists>order. topological_order g = Inr order))
   \<and> (\<forall>order. topological_order g = Inr order \<longrightarrow>
        mset order = mset (nodes g) \<and> topo_sorted order)
   \<and> (\<forall>waiting n rest. pick_ready waiting [] waiting = Some (n, rest) \<longrightarrow>
        (\<exists>pre post. waiting = pre @ n # post \<and> rest = pre @ post \<and> ready waiting n
           \<and> (\<forall>m\<in>set pre. \<not> ready waiting m)))"
proof (intro conjI impI allI)
  assume v: "validate g = Inr ()"
  then show same: "topological_order g = Inr (nodes g)"
    using validate_nodes_topo_loop [of "[]" "nodes g" "[]"]
    by (simp add: validate_def topological_order_def)
  fix order assume "topological_order g = Inr order"
  with same have "order = nodes g" by simp
  with v show "validate (g\<lparr>nodes := order\<rparr>) = Inr ()" by (simp add: validate_def)
next
  fix e assume f: "topological_order g = Inl e"
  from topo_loop_stuck [OF f [unfolded topological_order_def]]
  show "e = CycleDetected" by simp
  from topo_loop_stuck [OF f [unfolded topological_order_def]]
  show "\<not> acyclic (depends_on (nodes g))" by (auto dest: stuck_not_acyclic)
next
  assume ac: "acyclic (depends_on (nodes g))"
  show "\<exists>order. topological_order g = Inr order"
  proof (cases "topological_order g")
    case (Inl e)
    from topo_loop_stuck [OF Inl [unfolded topological_order_def]] ac
    show ?thesis by (auto dest: stuck_not_acyclic)
  next
    case (Inr order)
    then show ?thesis by blast
  qed
next
  fix order assume s: "topological_order g = Inr order"
  from topo_loop_sorted [OF s [unfolded topological_order_def]]
  show "mset order = mset (nodes g)" by auto
  from topo_loop_sorted [OF s [unfolded topological_order_def]]
  show "topo_sorted order" by auto
next
  fix waiting n rest assume "pick_ready waiting [] waiting = Some (n, rest)"
  from pick_ready_Some [OF this]
  show "\<exists>pre post. waiting = pre @ n # post \<and> rest = pre @ post \<and> ready waiting n
           \<and> (\<forall>m\<in>set pre. \<not> ready waiting m)" by simp
qed

theorem topological_order_valid_witness:
  "topological_order
     \<lparr>nodes =
        [\<lparr>node_id = ''parameter:data'', type_name = ''Parameter'', inputs = [],
          outputs = [\<lparr>slot_name = ''output'',
                      descriptor = \<lparr>element_type = f32, shape = [Some 1, Some 3, Some 16, Some 16],
                                    layout = [''N'', ''C'', ''H'', ''W'']\<rparr>\<rparr>],
          strides = []\<rparr>,
         \<lparr>node_id = ''result:out'', type_name = ''Result'',
          inputs = [\<lparr>producer = ''parameter:data'', slot = 0\<rparr>], outputs = [], strides = []\<rparr>]\<rparr>
   = Inr
        [\<lparr>node_id = ''parameter:data'', type_name = ''Parameter'', inputs = [],
          outputs = [\<lparr>slot_name = ''output'',
                      descriptor = \<lparr>element_type = f32, shape = [Some 1, Some 3, Some 16, Some 16],
                                    layout = [''N'', ''C'', ''H'', ''W'']\<rparr>\<rparr>],
          strides = []\<rparr>,
         \<lparr>node_id = ''result:out'', type_name = ''Result'',
          inputs = [\<lparr>producer = ''parameter:data'', slot = 0\<rparr>], outputs = [], strides = []\<rparr>]
   \<and> \<not> acyclic (depends_on
        [\<lparr>node_id = ''a'', type_name = ''Add'', inputs = [\<lparr>producer = ''b'', slot = 0\<rparr>],
          outputs = [], strides = []\<rparr>,
         \<lparr>node_id = ''b'', type_name = ''Add'', inputs = [\<lparr>producer = ''a'', slot = 0\<rparr>],
          outputs = [], strides = []\<rparr>])"
proof -
  let ?g = "\<lparr>nodes =
        [\<lparr>node_id = ''parameter:data'', type_name = ''Parameter'', inputs = [],
          outputs = [\<lparr>slot_name = ''output'',
                      descriptor = \<lparr>element_type = f32, shape = [Some 1, Some 3, Some 16, Some 16],
                                    layout = [''N'', ''C'', ''H'', ''W'']\<rparr>\<rparr>],
          strides = []\<rparr>,
         \<lparr>node_id = ''result:out'', type_name = ''Result'',
          inputs = [\<lparr>producer = ''parameter:data'', slot = 0\<rparr>], outputs = [], strides = []\<rparr>]\<rparr>"
  let ?c = "\<lparr>nodes =
        [\<lparr>node_id = ''a'', type_name = ''Add'', inputs = [\<lparr>producer = ''b'', slot = 0\<rparr>],
          outputs = [], strides = []\<rparr>,
         \<lparr>node_id = ''b'', type_name = ''Add'', inputs = [\<lparr>producer = ''a'', slot = 0\<rparr>],
          outputs = [], strides = []\<rparr>]\<rparr>"
  have valid: "validate ?g = Inr ()"
    by (simp add: validate_def input_ok_def)
  have cyclic: "topological_order ?c = Inl CycleDetected"
    by (simp add: topological_order_def topo_loop_Cons ready_def)
  from topological_order_valid [of ?g] valid
  have "topological_order ?g = Inr (nodes ?g)" by blast
  moreover from topological_order_valid [of ?c] cyclic
  have "\<not> acyclic (depends_on (nodes ?c))" by blast
  ultimately show ?thesis by simp
qed

section \<open>Completeness of the lowering\<close>















end
